theory Spec2Isabelle
  imports Main "HOL-Library.Word"
begin

section \<open>The tablet peer of \<^verbatim>\<open>src/tablet/tablet_peer.cc\<close>\<close>

text \<open>
  The peer is a class with mutable members; its member functions call into collaborators
  that live outside this file (the consensus module, the tablet and its metadata, the task
  executors, the transactions). The model is explicit state passing: every member function
  takes the peer and returns an outcome, the peer as the call leaves it, and the list of
  effects the call performed, in program order. What a collaborator answers (a
  \<^verbatim>\<open>Status\<close>, an out-parameter) is an argument of the model function.
  The trailing underscore of the C++ member names is dropped.
\<close>

subsection \<open>Status, outcomes, handles\<close>

text \<open>
  \<^verbatim>\<open>Status\<close>: OK, or an error kind with a message. The peer itself only builds
  \<^verbatim>\<open>Status::IllegalState\<close>; every other kind a collaborator may answer is
  \<open>OtherError\<close> with its code.
\<close>

datatype status = OK | IllegalState string | OtherError nat string

definition ok :: "status \<Rightarrow> bool" where
  "ok s = (s = OK)"

text \<open>
  How a call ends: it returns, or a \<^verbatim>\<open>CHECK\<close>/\<^verbatim>\<open>DCHECK\<close> aborts the
  process with its message, or it goes through a null \<^verbatim>\<open>gscoped_ptr\<close> or
  \<^verbatim>\<open>shared_ptr\<close>.
\<close>

datatype 'a outcome = Returned 'a | Fatal string | NullDereference

text \<open>Collaborator objects are opaque to the peer: a pointer is an address, null is \<open>None\<close>.\<close>

type_synonym addr = nat

text \<open>
  Modelled from the spec: the enum of lifecycle states is declared in the metadata module,
  outside this file. The code names \<open>BOOTSTRAPPING\<close>, \<open>CONFIGURING\<close> and \<open>RUNNING\<close>;
  \<open>SHUTDOWN\<close> is the terminal state the spec lists after them.
\<close>

datatype tablet_state = BOOTSTRAPPING | CONFIGURING | RUNNING | SHUTDOWN

text \<open>The three locks are members of the peer; a reference to one names the member.\<close>

datatype lock = internal_state_lock | config_lock | prepare_replicate_lock

text \<open>
  Modelled from the spec: \<^verbatim>\<open>TaskExecutor::CreateNew(name, thread_count)\<close> is declared
  outside this file; it constructs a pool with \<open>thread_count\<close> workers.
\<close>

record task_executor =
  executor_name :: string
  executor_threads :: int

definition CreateNew :: "string \<Rightarrow> int \<Rightarrow> task_executor" where
  "CreateNew nm n = \<lparr>executor_name = nm, executor_threads = n\<rparr>"

datatype consensus_options = ConsensusOptions

datatype consensus = LocalConsensus consensus_options

text \<open>
  The three leader transactions, as their constructors are called: the context pointer, the
  consensus pointer (null before \<open>Init\<close>), the prepare executor, the apply executor, the
  ordering lock, and for a configuration change the address of the configuration lock.
\<close>

datatype transaction =
    LeaderWriteTransaction "addr option" "consensus option" task_executor task_executor lock
  | LeaderAlterSchemaTransaction "addr option" "consensus option" task_executor task_executor lock
  | LeaderChangeConfigTransaction "addr option" "consensus option" task_executor task_executor
      lock lock






subsection \<open>Effects\<close>

text \<open>
  What a member function does to the world outside the peer's own fields, and the accesses
  to \<open>state\<close> with the lock operations around them. \<open>'qp\<close> is
  \<^verbatim>\<open>QuorumPeerPB\<close>, \<open>'q\<close> is \<^verbatim>\<open>QuorumPB\<close>.
\<close>

datatype ('qp, 'q) event =
    Lock lock
  | Unlock lock
  | ReadState tablet_state
  | WriteState tablet_state
  | ExecutorCreateNew string int
  | ConsensusNew consensus
  | ConsensusInit "'qp option" "addr option" status
  | TabletSetConsensus addr consensus
  | ConsensusStart 'q status "'q option"
  | MetadataSetQuorum addr 'q
  | MetadataFlush addr status
  | ConsensusShutdown status
  | LogWarning status
  | ExecutorShutdown task_executor
  | VLog addr
  | TransactionNew transaction
  | TransactionExecute transaction status

subsection \<open>The peer\<close>

text \<open>
  The executors are set by the constructor and never reset, so they are not nullable here;
  \<open>tablet\<close>, \<open>log\<close> and \<open>consensus\<close> are null until \<open>Init\<close>. \<open>quorum_peer\<close> is
  \<open>None\<close> while it still holds the default-constructed message.
\<close>

record 'qp tablet_peer =
  prepare_executor :: task_executor
  apply_executor :: task_executor
  state :: tablet_state
  tablet :: "addr option"
  quorum_peer :: "'qp option"
  log :: "addr option"
  consensus :: "consensus option"

text \<open>
  The constructor. \<open>sysconf_errno\<close> is \<^verbatim>\<open>errno\<close> after the call of
  \<^verbatim>\<open>sysconf\<close> and \<open>sysconf_value\<close> the \<^verbatim>\<open>long\<close> it returned;
  \<^verbatim>\<open>int n_cpus\<close> keeps its low 32 bits. The prepare executor is built in the
  initialiser list, before the checks.
\<close>

definition TabletPeer ::
  "int \<Rightarrow> 64 word \<Rightarrow> 'qp tablet_peer outcome \<times> ('qp, 'q) event list" where
  "TabletPeer sysconf_errno sysconf_value =
     (let prepare = CreateNew ''prepare exec'' 1;
          t0 = [ExecutorCreateNew ''prepare exec'' 1];
          n_cpus = (ucast sysconf_value :: 32 word)
      in if sysconf_errno \<noteq> 0 then (Fatal ''Check failed: errno == 0'', t0)
         else if \<not> 0 < sint n_cpus then (Fatal ''Check failed: n_cpus > 0'', t0)
         else
           (Returned
              \<lparr>prepare_executor = prepare,
               apply_executor = CreateNew ''apply exec'' (sint n_cpus),
               state = BOOTSTRAPPING,
               tablet = None, quorum_peer = None, log = None, consensus = None\<rparr>,
            t0 @ [ExecutorCreateNew ''apply exec'' (sint n_cpus), WriteState BOOTSTRAPPING]))"

text \<open>
  \<open>Init\<close>. \<open>dcheck_is_on\<close> tells whether the build keeps \<^verbatim>\<open>DCHECK\<close>;
  \<open>consensus_init\<close> is what \<^verbatim>\<open>consensus_->Init\<close> answers.
\<close>

definition Init ::
  "bool \<Rightarrow> addr option \<Rightarrow> 'qp \<Rightarrow> addr option \<Rightarrow> status \<Rightarrow> 'qp tablet_peer \<Rightarrow>
   status outcome \<times> 'qp tablet_peer \<times> ('qp, 'q) event list" where
  "Init dcheck_is_on tablet_arg quorum_peer_arg log_arg consensus_init p =
     (let c = LocalConsensus ConsensusOptions;
          p1 = p\<lparr>state := CONFIGURING, tablet := tablet_arg,
                 quorum_peer := Some quorum_peer_arg, log := log_arg, consensus := Some c\<rparr>;
          t1 = [Lock internal_state_lock, WriteState CONFIGURING, ConsensusNew c,
                Unlock internal_state_lock]
      in if dcheck_is_on \<and> tablet p1 = None then
           (Fatal ''A TabletPeer must be provided with a Tablet'', p1, t1)
         else if dcheck_is_on \<and> log p1 = None then
           (Fatal ''A TabletPeer must be provided with a Log'', p1, t1)
         else
           (let t2 = t1 @ [ConsensusInit (quorum_peer p1) (log p1) consensus_init]
            in if \<not> ok consensus_init then (Returned consensus_init, p1, t2)
               else (case tablet p1 of
                       None \<Rightarrow> (NullDereference, p1, t2)
                     | Some t \<Rightarrow> (Returned OK, p1, t2 @ [TabletSetConsensus t c]))))"

text \<open>
  \<open>Start\<close>. \<open>consensus_start\<close> is the status and the out-parameter
  \<^verbatim>\<open>actual_config\<close> of \<^verbatim>\<open>consensus_->Start\<close>; \<open>flush\<close> is what the metadata's
  \<^verbatim>\<open>Flush\<close> answers. The guard on \<open>config_lock\<close> spans the call and is released at
  each return.
\<close>

definition Start ::
  "'q \<Rightarrow> status \<times> 'q option \<Rightarrow> status \<Rightarrow> 'qp tablet_peer \<Rightarrow>
   status outcome \<times> 'qp tablet_peer \<times> ('qp, 'q) event list" where
  "Start quorum consensus_start flush p =
     (let t0 = [Lock config_lock]
      in case consensus p of
           None \<Rightarrow> (NullDereference, p, t0)
         | Some c \<Rightarrow>
             (let s = fst consensus_start;
                  actual_config = snd consensus_start;
                  t1 = t0 @ [ConsensusStart quorum s actual_config]
              in if \<not> ok s then (Returned s, p, t1 @ [Unlock config_lock])
                 else (case tablet p of
                         None \<Rightarrow> (NullDereference, p, t1)
                       | Some t \<Rightarrow>
                           (case actual_config of
                              None \<Rightarrow> (NullDereference, p, t1)
                            | Some q \<Rightarrow>
                                (let t2 = t1 @ [MetadataSetQuorum t q, MetadataFlush t flush]
                                 in if \<not> ok flush then
                                      (Returned flush, p, t2 @ [Unlock config_lock])
                                    else
                                      (Returned OK, p\<lparr>state := RUNNING\<rparr>,
                                       t2 @ [Lock internal_state_lock, WriteState RUNNING,
                                             Unlock internal_state_lock,
                                             Unlock config_lock]))))))"

text \<open>
  \<open>Shutdown\<close>. \<open>consensus_shutdown\<close> is what \<^verbatim>\<open>consensus_->Shutdown\<close> answers;
  \<open>vlog_is_on\<close> tells whether verbose level 1 is enabled, in which case the log statement
  reads the tablet's identifier.
\<close>

definition Shutdown ::
  "status \<Rightarrow> bool \<Rightarrow> 'qp tablet_peer \<Rightarrow>
   status outcome \<times> 'qp tablet_peer \<times> ('qp, 'q) event list" where
  "Shutdown consensus_shutdown vlog_is_on p =
     (case consensus p of
        None \<Rightarrow> (NullDereference, p, [])
      | Some c \<Rightarrow>
          (let t1 = [ConsensusShutdown consensus_shutdown]
                    @ (if \<not> ok consensus_shutdown then [LogWarning consensus_shutdown] else [])
                    @ [ExecutorShutdown (prepare_executor p),
                       ExecutorShutdown (apply_executor p)]
           in if vlog_is_on then
                (case tablet p of
                   None \<Rightarrow> (NullDereference, p, t1)
                 | Some t \<Rightarrow> (Returned OK, p, t1 @ [VLog t]))
              else (Returned OK, p, t1)))"

text \<open>
  The three submissions. \<open>execute\<close> is what \<^verbatim>\<open>transaction->Execute()\<close> answers.
\<close>

definition SubmitWrite ::
  "addr option \<Rightarrow> status \<Rightarrow> 'qp tablet_peer \<Rightarrow>
   status outcome \<times> 'qp tablet_peer \<times> ('qp, 'q) event list" where
  "SubmitWrite tx_ctx execute p =
     (let t0 = [Lock internal_state_lock, ReadState (state p), Unlock internal_state_lock]
      in if state p \<noteq> RUNNING then
           (Returned (IllegalState ''Tablet not in RUNNING state.''), p, t0)
         else
           (let transaction =
                  LeaderWriteTransaction tx_ctx (consensus p) (prepare_executor p)
                    (apply_executor p) prepare_replicate_lock
            in (Returned execute, p,
                t0 @ [TransactionNew transaction, TransactionExecute transaction execute])))"

definition SubmitAlterSchema ::
  "addr option \<Rightarrow> status \<Rightarrow> 'qp tablet_peer \<Rightarrow>
   status outcome \<times> 'qp tablet_peer \<times> ('qp, 'q) event list" where
  "SubmitAlterSchema tx_ctx execute p =
     (let t0 = [Lock internal_state_lock, ReadState (state p), Unlock internal_state_lock]
      in if state p \<noteq> RUNNING then
           (Returned (IllegalState ''Tablet not in RUNNING state.''), p, t0)
         else
           (let transaction =
                  LeaderAlterSchemaTransaction tx_ctx (consensus p) (prepare_executor p)
                    (apply_executor p) prepare_replicate_lock
            in (Returned execute, p,
                t0 @ [TransactionNew transaction, TransactionExecute transaction execute])))"

definition SubmitChangeConfig ::
  "addr option \<Rightarrow> status \<Rightarrow> 'qp tablet_peer \<Rightarrow>
   status outcome \<times> 'qp tablet_peer \<times> ('qp, 'q) event list" where
  "SubmitChangeConfig tx_ctx execute p =
     (let transaction =
            LeaderChangeConfigTransaction tx_ctx (consensus p) (prepare_executor p)
              (apply_executor p) prepare_replicate_lock config_lock
      in (Returned execute, p,
          [TransactionNew transaction, TransactionExecute transaction execute]))"

subsection \<open>Reading a list of effects\<close>

fun transactions_of :: "('qp, 'q) event list \<Rightarrow> transaction list" where
  "transactions_of [] = []"
| "transactions_of (TransactionNew tx # es) = tx # transactions_of es"
| "transactions_of (e # es) = transactions_of es"

fun executed_of :: "('qp, 'q) event list \<Rightarrow> transaction list" where
  "executed_of [] = []"
| "executed_of (TransactionExecute tx s # es) = tx # executed_of es"
| "executed_of (e # es) = executed_of es"

fun is_shutdown_event :: "('qp, 'q) event \<Rightarrow> bool" where
  "is_shutdown_event (ConsensusShutdown s) = True"
| "is_shutdown_event (ExecutorShutdown e) = True"
| "is_shutdown_event e = False"

subsection \<open>Sequences of calls\<close>

text \<open>
  A call of a public entry point, with its arguments and with the answers of the
  collaborators it reaches. \<open>dispatch\<close> runs one call; \<open>run\<close> runs a sequence on one peer
  and lists the lifecycle state after each call that returned. A call that aborts the
  process or goes through a null pointer ends the sequence.
\<close>

datatype ('qp, 'q) call =
    CallInit "addr option" 'qp "addr option" status
  | CallStart 'q "status \<times> 'q option" status
  | CallShutdown status
  | CallSubmitWrite "addr option" status
  | CallSubmitAlterSchema "addr option" status
  | CallSubmitChangeConfig "addr option" status

fun dispatch ::
  "bool \<Rightarrow> bool \<Rightarrow> ('qp, 'q) call \<Rightarrow> 'qp tablet_peer \<Rightarrow>
   status outcome \<times> 'qp tablet_peer \<times> ('qp, 'q) event list" where
  "dispatch dcheck_is_on vlog_is_on (CallInit t qp l ci) p = Init dcheck_is_on t qp l ci p"
| "dispatch dcheck_is_on vlog_is_on (CallStart q cs fl) p = Start q cs fl p"
| "dispatch dcheck_is_on vlog_is_on (CallShutdown s) p = Shutdown s vlog_is_on p"
| "dispatch dcheck_is_on vlog_is_on (CallSubmitWrite x e) p = SubmitWrite x e p"
| "dispatch dcheck_is_on vlog_is_on (CallSubmitAlterSchema x e) p = SubmitAlterSchema x e p"
| "dispatch dcheck_is_on vlog_is_on (CallSubmitChangeConfig x e) p = SubmitChangeConfig x e p"

fun run ::
  "bool \<Rightarrow> bool \<Rightarrow> ('qp, 'q) call list \<Rightarrow> 'qp tablet_peer \<Rightarrow> tablet_state list" where
  "run dcheck_is_on vlog_is_on [] p = []"
| "run dcheck_is_on vlog_is_on (c # cs) p =
     (case dispatch dcheck_is_on vlog_is_on c p of
        (Returned s, p', tr) \<Rightarrow> state p' # run dcheck_is_on vlog_is_on cs p'
      | (Fatal m, p', tr) \<Rightarrow> []
      | (NullDereference, p', tr) \<Rightarrow> [])"

text \<open>The order of the lifecycle: the position of a state on the path to the terminal one.\<close>

fun state_rank :: "tablet_state \<Rightarrow> nat" where
  "state_rank BOOTSTRAPPING = 0"
| "state_rank CONFIGURING = 1"
| "state_rank RUNNING = 2"
| "state_rank SHUTDOWN = 3"

fun is_init :: "('qp, 'q) call \<Rightarrow> bool" where
  "is_init (CallInit t qp l ci) = True"
| "is_init c = False"

text \<open>
  A sequence of calls in which \<open>Init\<close> is only called on a peer that is still
  \<open>BOOTSTRAPPING\<close> or \<open>CONFIGURING\<close>.
\<close>

fun init_only_before_running ::
  "bool \<Rightarrow> bool \<Rightarrow> ('qp, 'q) call list \<Rightarrow> 'qp tablet_peer \<Rightarrow> bool" where
  "init_only_before_running dcheck_is_on vlog_is_on [] p = True"
| "init_only_before_running dcheck_is_on vlog_is_on (c # cs) p =
     ((if is_init c then state_rank (state p) \<le> 1 else True) \<and>
      (case dispatch dcheck_is_on vlog_is_on c p of
         (Returned s, p', tr) \<Rightarrow> init_only_before_running dcheck_is_on vlog_is_on cs p'
       | (Fatal m, p', tr) \<Rightarrow> True
       | (NullDereference, p', tr) \<Rightarrow> True))"

subsection \<open>Peers used as examples\<close>

text \<open>
  \<open>fresh_peer\<close> is the peer the constructor returns on a host with four processors;
  \<open>running_peer\<close> is that peer after \<open>Init\<close> with tablet 7 and log 9 and a
  successful \<open>Start\<close>.
\<close>

abbreviation fresh_peer :: "string tablet_peer" where
  "fresh_peer \<equiv>
     \<lparr>prepare_executor = \<lparr>executor_name = ''prepare exec'', executor_threads = 1\<rparr>,
      apply_executor = \<lparr>executor_name = ''apply exec'', executor_threads = 4\<rparr>,
      state = BOOTSTRAPPING,
      tablet = None, quorum_peer = None, log = None, consensus = None\<rparr>"

abbreviation running_peer :: "string tablet_peer" where
  "running_peer \<equiv>
     \<lparr>prepare_executor = \<lparr>executor_name = ''prepare exec'', executor_threads = 1\<rparr>,
      apply_executor = \<lparr>executor_name = ''apply exec'', executor_threads = 4\<rparr>,
      state = RUNNING,
      tablet = Some 7, quorum_peer = Some ''peer-a'', log = Some 9,
      consensus = Some (LocalConsensus ConsensusOptions)\<rparr>"

section \<open>Properties\<close>

subsection \<open>The constructor\<close>

text \<open>A \<^verbatim>\<open>long\<close> that fits an \<^verbatim>\<open>int\<close> survives the conversion.\<close>

lemma sint_ucast_int_range:
  fixes v :: "64 word"
  assumes "- (2 ^ 31) \<le> sint v" and "sint v < 2 ^ 31"
  shows "sint (ucast v :: 32 word) = sint v"
proof -
  have "sint (ucast v :: 32 word) = signed_take_bit 31 (sint v)"
    by (simp add: sint_uint signed_take_bit_eq_iff_take_bit_eq unsigned_ucast_eq
        take_bit_signed_take_bit min_def)
  also have "\<dots> = sint v"
    using assms by (simp add: signed_take_bit_int_eq_self)
  finally show ?thesis .
qed

text \<open>
  C7. The constructor builds the prepare executor with one thread and the apply executor
  with as many threads as \<^verbatim>\<open>sysconf\<close> reported processors, and leaves the peer
  \<open>BOOTSTRAPPING\<close>; when \<^verbatim>\<open>sysconf\<close> set \<^verbatim>\<open>errno\<close> or reported a count that
  is not positive, the constructor aborts, and no apply executor is built. The value
  \<^verbatim>\<open>sysconf\<close> returns is taken to fit an \<^verbatim>\<open>int\<close>, the type of \<open>n_cpus\<close>.
\<close>

theorem TabletPeer_pools:
  fixes sysconf_value :: "64 word"
  assumes "- (2 ^ 31) \<le> sint sysconf_value" and "sint sysconf_value < 2 ^ 31"
  shows "(sysconf_errno = 0 \<and> 0 < sint sysconf_value \<longrightarrow>
           (\<exists>p. (TabletPeer sysconf_errno sysconf_value
                    :: 'qp tablet_peer outcome \<times> ('qp, 'q) event list) =
                  (Returned p,
                   [ExecutorCreateNew ''prepare exec'' 1,
                    ExecutorCreateNew ''apply exec'' (sint sysconf_value),
                    WriteState BOOTSTRAPPING]) \<and>
                executor_threads (prepare_executor p) = 1 \<and>
                executor_threads (apply_executor p) = sint sysconf_value \<and>
                state p = BOOTSTRAPPING)) \<and>
         (sysconf_errno \<noteq> 0 \<or> sint sysconf_value \<le> 0 \<longrightarrow>
           (\<exists>m. (TabletPeer sysconf_errno sysconf_value
                    :: 'qp tablet_peer outcome \<times> ('qp, 'q) event list) =
                  (Fatal m, [ExecutorCreateNew ''prepare exec'' 1])))"
  using assms
  by (auto simp: TabletPeer_def CreateNew_def Let_def sint_ucast_int_range)

theorem TabletPeer_pools_witness:
  "- (2 ^ 31) \<le> sint (4 :: 64 word) \<and> sint (4 :: 64 word) < 2 ^ 31 \<and>
   (\<exists>p. fst (TabletPeer 0 4 :: string tablet_peer outcome \<times> (string, string) event list)
          = Returned p \<and>
        executor_threads (prepare_executor p) = 1 \<and>
        executor_threads (apply_executor p) = 4 \<and> state p = BOOTSTRAPPING) \<and>
   (\<exists>m. fst (TabletPeer 0 0 :: string tablet_peer outcome \<times> (string, string) event list)
          = Fatal m)"
proof -
  have a: "- (2 ^ 31) \<le> sint (4 :: 64 word)" and b: "sint (4 :: 64 word) < 2 ^ 31"
    by simp_all
  have c: "- (2 ^ 31) \<le> sint (0 :: 64 word)" and d: "sint (0 :: 64 word) < 2 ^ 31"
    by simp_all
  show ?thesis
    using a b TabletPeer_pools [OF a b, of 0, where ?'qp = string and ?'q = string]
      TabletPeer_pools [OF c d, of 0, where ?'qp = string and ?'q = string]
    by auto
qed

text \<open>
  The two example peers are states the code reaches: the constructor returns
  \<open>fresh_peer\<close>, and \<open>Init\<close> followed by \<open>Start\<close> takes it to \<open>running_peer\<close>.
\<close>

lemma fresh_peer_constructed:
  "fst (TabletPeer 0 4 :: string tablet_peer outcome \<times> (string, string) event list) =
     Returned fresh_peer"
  by (simp add: TabletPeer_def CreateNew_def Let_def)

lemma running_peer_reached:
  "fst (snd (Init True (Some 7) ''peer-a'' (Some 9) OK fresh_peer
      :: status outcome \<times> string tablet_peer \<times> (string, string) event list)) =
     running_peer\<lparr>state := CONFIGURING\<rparr> \<and>
   fst (snd (Start ''q'' (OK, Some ''q'') OK (running_peer\<lparr>state := CONFIGURING\<rparr>)
      :: status outcome \<times> string tablet_peer \<times> (string, string) event list)) =
     running_peer"
  by (simp add: Init_def Start_def Let_def ok_def)

subsection \<open>Submissions\<close>

text \<open>
  C1, as the code has it. A \<open>SubmitWrite\<close> or a \<open>SubmitAlterSchema\<close> on a peer whose
  state is not \<open>RUNNING\<close> returns the illegal-state status, leaves the peer as it was,
  builds no transaction and executes none; the state is read between taking and releasing
  \<open>internal_state_lock\<close>, and the release is the last thing the call does.
\<close>

theorem Submit_not_running_rejected:
  fixes p :: "'qp tablet_peer"
  assumes "state p \<noteq> RUNNING"
  shows "(SubmitWrite x e p :: status outcome \<times> 'qp tablet_peer \<times> ('qp, 'q) event list) =
           (Returned (IllegalState ''Tablet not in RUNNING state.''), p,
            [Lock internal_state_lock, ReadState (state p), Unlock internal_state_lock]) \<and>
         (SubmitAlterSchema x e p :: status outcome \<times> 'qp tablet_peer \<times> ('qp, 'q) event list) =
           (Returned (IllegalState ''Tablet not in RUNNING state.''), p,
            [Lock internal_state_lock, ReadState (state p), Unlock internal_state_lock]) \<and>
         transactions_of (snd (snd (SubmitWrite x e p
            :: status outcome \<times> 'qp tablet_peer \<times> ('qp, 'q) event list))) = [] \<and>
         executed_of (snd (snd (SubmitWrite x e p
            :: status outcome \<times> 'qp tablet_peer \<times> ('qp, 'q) event list))) = [] \<and>
         transactions_of (snd (snd (SubmitAlterSchema x e p
            :: status outcome \<times> 'qp tablet_peer \<times> ('qp, 'q) event list))) = [] \<and>
         executed_of (snd (snd (SubmitAlterSchema x e p
            :: status outcome \<times> 'qp tablet_peer \<times> ('qp, 'q) event list))) = []"
  using assms
  by (simp add: SubmitWrite_def SubmitAlterSchema_def Let_def)

theorem Submit_not_running_rejected_witness:
  "state fresh_peer \<noteq> RUNNING \<and>
   fst (SubmitWrite (Some 3) OK fresh_peer
      :: status outcome \<times> string tablet_peer \<times> (string, string) event list) =
     Returned (IllegalState ''Tablet not in RUNNING state.'') \<and>
   fst (SubmitAlterSchema (Some 3) OK fresh_peer
      :: status outcome \<times> string tablet_peer \<times> (string, string) event list) =
     Returned (IllegalState ''Tablet not in RUNNING state.'')"
proof -
  have h: "state fresh_peer \<noteq> RUNNING" by simp
  show ?thesis
    using h Submit_not_running_rejected [OF h, of "Some 3" OK, where ?'q = string]
    by simp
qed

text \<open>
  C1 as stated covers all three kinds. \<open>SubmitChangeConfig\<close> reads no state: on the peer
  just constructed, still \<open>BOOTSTRAPPING\<close>, it builds the transaction, with a null
  consensus pointer, executes it and returns what \<open>Execute\<close> answered.
\<close>

theorem SubmitChangeConfig_unchecked_counterexample:
  "state fresh_peer \<noteq> RUNNING \<and>
   (SubmitChangeConfig (Some 3) OK fresh_peer
      :: status outcome \<times> string tablet_peer \<times> (string, string) event list) =
     (Returned OK, fresh_peer,
      [TransactionNew
         (LeaderChangeConfigTransaction (Some 3) None
            \<lparr>executor_name = ''prepare exec'', executor_threads = 1\<rparr>
            \<lparr>executor_name = ''apply exec'', executor_threads = 4\<rparr>
            prepare_replicate_lock config_lock),
       TransactionExecute
         (LeaderChangeConfigTransaction (Some 3) None
            \<lparr>executor_name = ''prepare exec'', executor_threads = 1\<rparr>
            \<lparr>executor_name = ''apply exec'', executor_threads = 4\<rparr>
            prepare_replicate_lock config_lock) OK])"
  by (simp add: SubmitChangeConfig_def Let_def)



subsection \<open>Init\<close>

text \<open>
  C2 as stated: after \<open>Init\<close> with a null log the state is still \<open>BOOTSTRAPPING\<close> and
  nothing is attached. The code assigns first and asserts afterwards: at the abort the state
  is \<open>CONFIGURING\<close> and the tablet, the quorum peer and a new consensus are in place.
\<close>

theorem Init_null_handle_counterexample:
  "state fresh_peer = BOOTSTRAPPING \<and>
   (Init True (Some 7) ''peer-a'' None OK fresh_peer
      :: status outcome \<times> string tablet_peer \<times> (string, string) event list) =
     (Fatal ''A TabletPeer must be provided with a Log'',
      fresh_peer\<lparr>state := CONFIGURING, tablet := Some 7, quorum_peer := Some ''peer-a'',
        consensus := Some (LocalConsensus ConsensusOptions)\<rparr>,
      [Lock internal_state_lock, WriteState CONFIGURING,
       ConsensusNew (LocalConsensus ConsensusOptions), Unlock internal_state_lock])"
  by (simp add: Init_def Let_def)

text \<open>
  C2, as the code has it. In a build that keeps \<^verbatim>\<open>DCHECK\<close>, \<open>Init\<close> with a null
  tablet or a null log aborts the process, after it has set the state to \<open>CONFIGURING\<close>
  and stored its arguments and a new consensus under \<open>internal_state_lock\<close>; the
  consensus module's \<open>Init\<close> is not reached.
\<close>

theorem Init_null_handle:
  fixes p :: "'qp tablet_peer"
  assumes "dcheck_is_on" and "tablet_arg = None \<or> log_arg = None"
  shows "\<exists>m. (Init dcheck_is_on tablet_arg quorum_peer_arg log_arg consensus_init p
            :: status outcome \<times> 'qp tablet_peer \<times> ('qp, 'q) event list) =
           (Fatal m,
            p\<lparr>state := CONFIGURING, tablet := tablet_arg,
              quorum_peer := Some quorum_peer_arg, log := log_arg,
              consensus := Some (LocalConsensus ConsensusOptions)\<rparr>,
            [Lock internal_state_lock, WriteState CONFIGURING,
             ConsensusNew (LocalConsensus ConsensusOptions), Unlock internal_state_lock])"
  using assms by (auto simp: Init_def Let_def)

theorem Init_null_handle_witness:
  "((Some 7 :: addr option) = None \<or> (None :: addr option) = None) \<and>
   (\<exists>m. fst (Init True (Some 7) ''peer-a'' None OK fresh_peer
      :: status outcome \<times> string tablet_peer \<times> (string, string) event list) = Fatal m) \<and>
   state (fst (snd (Init True (Some 7) ''peer-a'' None OK fresh_peer
      :: status outcome \<times> string tablet_peer \<times> (string, string) event list))) = CONFIGURING"
proof -
  have h: "(Some 7 :: addr option) = None \<or> (None :: addr option) = None" by simp
  show ?thesis
    using h Init_null_handle [OF TrueI h, of "''peer-a''" OK fresh_peer, where ?'q = string]
    by auto
qed

subsection \<open>Start\<close>

text \<open>
  C3. When the consensus module's \<open>Start\<close> fails, or the metadata flush fails, \<open>Start\<close>
  returns that status and the peer is unchanged, so a \<open>CONFIGURING\<close> peer stays
  \<open>CONFIGURING\<close>. The state is written, to \<open>RUNNING\<close>, only in a call in which both
  succeeded, and then the write comes after the effective configuration was handed to the
  metadata and flushed.
\<close>

theorem Start_running_after_flush:
  fixes p :: "'qp tablet_peer"
  assumes "Start quorum (cs, cfg) fl p = (r, p', tr)"
  shows "(consensus p \<noteq> None \<and> \<not> ok cs \<longrightarrow>
            r = Returned cs \<and> p' = p \<and> WriteState RUNNING \<notin> set tr) \<and>
         (consensus p \<noteq> None \<and> tablet p \<noteq> None \<and> cfg \<noteq> None \<and> ok cs \<and> \<not> ok fl \<longrightarrow>
            r = Returned fl \<and> p' = p \<and> WriteState RUNNING \<notin> set tr) \<and>
         (r \<noteq> Returned OK \<longrightarrow> p' = p) \<and>
         (state p = CONFIGURING \<and> r \<noteq> Returned OK \<longrightarrow> state p' = CONFIGURING) \<and>
         (state p' \<noteq> state p \<or> WriteState RUNNING \<in> set tr \<longrightarrow>
            r = Returned OK \<and> state p' = RUNNING \<and> ok cs \<and> ok fl \<and>
            (\<exists>t q. tablet p = Some t \<and> cfg = Some q \<and>
               tr = [Lock config_lock, ConsensusStart quorum cs cfg,
                     MetadataSetQuorum t q, MetadataFlush t fl,
                     Lock internal_state_lock, WriteState RUNNING,
                     Unlock internal_state_lock, Unlock config_lock]))"
  using assms
  by (auto simp: Start_def Let_def ok_def split: option.splits if_splits)

theorem Start_running_after_flush_witness:
  "(Start ''q'' (OK, Some ''q'') (OtherError 5 ''disk full'')
        (running_peer\<lparr>state := CONFIGURING\<rparr>)
      :: status outcome \<times> string tablet_peer \<times> (string, string) event list) =
     (Returned (OtherError 5 ''disk full''), running_peer\<lparr>state := CONFIGURING\<rparr>,
      [Lock config_lock, ConsensusStart ''q'' OK (Some ''q''),
       MetadataSetQuorum 7 ''q'', MetadataFlush 7 (OtherError 5 ''disk full''),
       Unlock config_lock]) \<and>
   (Start ''q'' (OtherError 6 ''no quorum'', None) OK (running_peer\<lparr>state := CONFIGURING\<rparr>)
      :: status outcome \<times> string tablet_peer \<times> (string, string) event list) =
     (Returned (OtherError 6 ''no quorum''), running_peer\<lparr>state := CONFIGURING\<rparr>,
      [Lock config_lock, ConsensusStart ''q'' (OtherError 6 ''no quorum'') None,
       Unlock config_lock]) \<and>
   (Start ''q'' (OK, Some ''q'') OK (running_peer\<lparr>state := CONFIGURING\<rparr>)
      :: status outcome \<times> string tablet_peer \<times> (string, string) event list) =
     (Returned OK, running_peer,
      [Lock config_lock, ConsensusStart ''q'' OK (Some ''q''),
       MetadataSetQuorum 7 ''q'', MetadataFlush 7 OK,
       Lock internal_state_lock, WriteState RUNNING,
       Unlock internal_state_lock, Unlock config_lock])"
proof -
  let ?p = "running_peer\<lparr>state := CONFIGURING\<rparr>"
  have a: "(Start ''q'' (OK, Some ''q'') (OtherError 5 ''disk full'') ?p
      :: status outcome \<times> string tablet_peer \<times> (string, string) event list) =
     (Returned (OtherError 5 ''disk full''), ?p,
      [Lock config_lock, ConsensusStart ''q'' OK (Some ''q''),
       MetadataSetQuorum 7 ''q'', MetadataFlush 7 (OtherError 5 ''disk full''),
       Unlock config_lock])"
    by (simp add: Start_def Let_def ok_def)
  have b: "(Start ''q'' (OtherError 6 ''no quorum'', None) OK ?p
      :: status outcome \<times> string tablet_peer \<times> (string, string) event list) =
     (Returned (OtherError 6 ''no quorum''), ?p,
      [Lock config_lock, ConsensusStart ''q'' (OtherError 6 ''no quorum'') None,
       Unlock config_lock])"
    by (simp add: Start_def Let_def ok_def)
  have c: "(Start ''q'' (OK, Some ''q'') OK ?p
      :: status outcome \<times> string tablet_peer \<times> (string, string) event list) =
     (Returned OK, running_peer,
      [Lock config_lock, ConsensusStart ''q'' OK (Some ''q''),
       MetadataSetQuorum 7 ''q'', MetadataFlush 7 OK,
       Lock internal_state_lock, WriteState RUNNING,
       Unlock internal_state_lock, Unlock config_lock])"
    by (simp add: Start_def Let_def ok_def)
  note Start_running_after_flush [OF a] Start_running_after_flush [OF b]
    Start_running_after_flush [OF c]
  with a b c show ?thesis by blast
qed

subsection \<open>Shutdown\<close>

lemma Shutdown_peer: "fst (snd (Shutdown s v p)) = p"
  by (simp add: Shutdown_def Let_def split: option.splits)

text \<open>
  C4 as stated holds of every \<open>Shutdown\<close>. The function reads \<open>consensus\<close> and, in
  its closing log statement, \<open>tablet\<close> without a null test. On the peer the constructor
  returns, \<open>Shutdown\<close> goes through the null consensus pointer before either executor is
  shut down. On a peer whose \<open>Init\<close> got a null tablet and stopped at the consensus
  module's error, \<open>Shutdown\<close> with verbose logging shuts all three down and then goes
  through the null tablet instead of returning OK.
\<close>

theorem Shutdown_before_Init_counterexample:
  "fst (TabletPeer 0 4 :: string tablet_peer outcome \<times> (string, string) event list) =
     Returned fresh_peer \<and>
   (Shutdown OK False fresh_peer
      :: status outcome \<times> string tablet_peer \<times> (string, string) event list) =
     (NullDereference, fresh_peer, []) \<and>
   (Shutdown OK True
      (fst (snd (Init False None ''peer-a'' (Some 9) (OtherError 1 ''bad log'') fresh_peer
         :: status outcome \<times> string tablet_peer \<times> (string, string) event list)))
      :: status outcome \<times> string tablet_peer \<times> (string, string) event list) =
     (NullDereference,
      fresh_peer\<lparr>state := CONFIGURING, quorum_peer := Some ''peer-a'', log := Some 9,
        consensus := Some (LocalConsensus ConsensusOptions)\<rparr>,
      [ConsensusShutdown OK,
       ExecutorShutdown \<lparr>executor_name = ''prepare exec'', executor_threads = 1\<rparr>,
       ExecutorShutdown \<lparr>executor_name = ''apply exec'', executor_threads = 4\<rparr>])"
  by (simp add: TabletPeer_def CreateNew_def Shutdown_def Init_def Let_def ok_def)

text \<open>
  C4, as the code has it. On a peer to which \<open>Init\<close> has attached a consensus module,
  \<open>Shutdown\<close> shuts the consensus module down first, logs a warning when that failed,
  then shuts down the prepare executor, then the apply executor, whatever the consensus
  module answered; nothing after them is a shutdown. It returns OK when a tablet is
  attached or verbose logging is off, so that the closing log statement can run.
\<close>

theorem Shutdown_order:
  fixes p :: "'qp tablet_peer"
  assumes "consensus p \<noteq> None"
  shows "(\<exists>rest. snd (snd (Shutdown s vlog_is_on p
              :: status outcome \<times> 'qp tablet_peer \<times> ('qp, 'q) event list)) =
            ConsensusShutdown s # (if ok s then [] else [LogWarning s]) @
            [ExecutorShutdown (prepare_executor p), ExecutorShutdown (apply_executor p)] @ rest \<and>
            filter is_shutdown_event rest = []) \<and>
         (tablet p \<noteq> None \<or> \<not> vlog_is_on \<longrightarrow>
            fst (Shutdown s vlog_is_on p
              :: status outcome \<times> 'qp tablet_peer \<times> ('qp, 'q) event list) = Returned OK)"
  using assms
  by (auto simp: Shutdown_def Let_def split: option.splits)

theorem Shutdown_order_witness:
  "consensus running_peer \<noteq> None \<and>
   fst (Shutdown (OtherError 2 ''stuck'') False running_peer
      :: status outcome \<times> string tablet_peer \<times> (string, string) event list) = Returned OK \<and>
   snd (snd (Shutdown (OtherError 2 ''stuck'') False running_peer
      :: status outcome \<times> string tablet_peer \<times> (string, string) event list)) =
     [ConsensusShutdown (OtherError 2 ''stuck''), LogWarning (OtherError 2 ''stuck''),
      ExecutorShutdown \<lparr>executor_name = ''prepare exec'', executor_threads = 1\<rparr>,
      ExecutorShutdown \<lparr>executor_name = ''apply exec'', executor_threads = 4\<rparr>]"
proof -
  have h: "consensus running_peer \<noteq> None" by simp
  have t: "snd (snd (Shutdown (OtherError 2 ''stuck'') False running_peer
      :: status outcome \<times> string tablet_peer \<times> (string, string) event list)) =
     [ConsensusShutdown (OtherError 2 ''stuck''), LogWarning (OtherError 2 ''stuck''),
      ExecutorShutdown \<lparr>executor_name = ''prepare exec'', executor_threads = 1\<rparr>,
      ExecutorShutdown \<lparr>executor_name = ''apply exec'', executor_threads = 4\<rparr>]"
    by (simp add: Shutdown_def Let_def ok_def)
  show ?thesis
    using h t Shutdown_order [OF h, of "OtherError 2 ''stuck''" False, where ?'q = string]
    by simp
qed

text \<open>
  C5 as stated: after \<open>Shutdown\<close> the state is \<open>SHUTDOWN\<close>. A running peer is still
  \<open>RUNNING\<close> after a \<open>Shutdown\<close> that returned OK.
\<close>

theorem Shutdown_state_counterexample:
  "fst (Shutdown OK False running_peer
      :: status outcome \<times> string tablet_peer \<times> (string, string) event list) = Returned OK \<and>
   state (fst (snd (Shutdown OK False running_peer
      :: status outcome \<times> string tablet_peer \<times> (string, string) event list))) = RUNNING \<and>
   state (fst (snd (Shutdown OK False running_peer
      :: status outcome \<times> string tablet_peer \<times> (string, string) event list))) \<noteq> SHUTDOWN"
  by (simp add: Shutdown_def Let_def ok_def)

text \<open>
  C5, as the code has it. \<open>Shutdown\<close> leaves every field of the peer as it was, the
  lifecycle state included, and writes no state at all.
\<close>

theorem Shutdown_keeps_state:
  "fst (snd (Shutdown s vlog_is_on p)) = p \<and>
   WriteState st \<notin> set (snd (snd (Shutdown s vlog_is_on p)))"
  by (auto simp: Shutdown_def Let_def split: option.splits)




subsection \<open>The lifecycle over sequences of calls\<close>

lemma Init_state: "state (fst (snd (Init d t qp l ci p))) = CONFIGURING"
  by (simp add: Init_def Let_def split: option.splits)

lemma Start_state:
  "state (fst (snd (Start q cs fl p))) = state p \<or> state (fst (snd (Start q cs fl p))) = RUNNING"
  by (simp add: Start_def Let_def split: option.splits)
lemma SubmitWrite_peer: "fst (snd (SubmitWrite x e p)) = p"
  by (simp add: SubmitWrite_def Let_def)

lemma SubmitAlterSchema_peer: "fst (snd (SubmitAlterSchema x e p)) = p"
  by (simp add: SubmitAlterSchema_def Let_def)

lemma SubmitChangeConfig_peer: "fst (snd (SubmitChangeConfig x e p)) = p"
  by (simp add: SubmitChangeConfig_def Let_def)

lemma dispatch_rank:
  assumes "is_init c \<longrightarrow> state_rank (state p) \<le> 1" and "state p \<noteq> SHUTDOWN"
  shows "state_rank (state p) \<le> state_rank (state (fst (snd (dispatch d v c p)))) \<and>
         state (fst (snd (dispatch d v c p))) \<noteq> SHUTDOWN"
proof (cases c)
  case (CallInit t qp l ci)
  then show ?thesis using assms by (simp add: Init_state)
next
  case (CallStart q cs fl)
  have "state_rank (state p) \<le> 2"
    using assms(2) by (cases "state p") simp_all
  then show ?thesis
    using Start_state [of q cs fl p] CallStart assms(2) by auto
next
  case (CallShutdown s)
  then show ?thesis using assms(2) by (simp add: Shutdown_peer)
next
  case (CallSubmitWrite x e)
  then show ?thesis using assms(2) by (simp add: SubmitWrite_peer)
next
  case (CallSubmitAlterSchema x e)
  then show ?thesis using assms(2) by (simp add: SubmitAlterSchema_peer)
next
  case (CallSubmitChangeConfig x e)
  then show ?thesis using assms(2) by (simp add: SubmitChangeConfig_peer)
qed

text \<open>
  C6, as the code has it. Over a sequence of calls in which \<open>Init\<close> is only called on a
  peer that is still \<open>BOOTSTRAPPING\<close> or \<open>CONFIGURING\<close>, the state never moves backwards
  along \<open>BOOTSTRAPPING\<close>, \<open>CONFIGURING\<close>, \<open>RUNNING\<close>. The peer starts in a state other
  than \<open>SHUTDOWN\<close>, which no entry point assigns.
\<close>

theorem run_monotone:
  assumes "init_only_before_running d v cs p" and "state p \<noteq> SHUTDOWN"
  shows "sorted (map state_rank (state p # run d v cs p))"
  using assms
proof (induction cs arbitrary: p)
  case Nil
  then show ?case by simp
next
  case (Cons c cs)
  obtain r p' tr where step: "dispatch d v c p = (r, p', tr)"
    by (metis prod_cases3)
  show ?case
  proof (cases r)
    case (Returned s)
    from Cons.prems step Returned
    have pre: "is_init c \<longrightarrow> state_rank (state p) \<le> 1"
      and rest: "init_only_before_running d v cs p'"
      by (auto split: if_splits)
    have le: "state_rank (state p) \<le> state_rank (state p')"
      and ns: "state p' \<noteq> SHUTDOWN"
      using dispatch_rank [OF pre Cons.prems(2), of d v] step by simp_all
    have "sorted (map state_rank (state p' # run d v cs p'))"
      using Cons.IH [OF rest ns] .
    then have "sorted (state_rank (state p) # map state_rank (state p' # run d v cs p'))"
      using le by (auto intro: order_trans)
    then show ?thesis using step Returned by simp
  next
    case (Fatal m)
    then show ?thesis using step by simp
  next
    case NullDereference
    then show ?thesis using step by simp
  qed
qed
theorem run_monotone_witness:
  "init_only_before_running True False
     [CallInit (Some 7) ''peer-a'' (Some 9) OK, CallStart ''q'' (OK, Some ''q'') OK,
      CallSubmitWrite (Some 3) OK, CallShutdown OK] fresh_peer \<and>
   run True False
     [CallInit (Some 7) ''peer-a'' (Some 9) OK, CallStart ''q'' (OK, Some ''q'') OK,
      CallSubmitWrite (Some 3) OK, CallShutdown OK] fresh_peer =
     [CONFIGURING, RUNNING, RUNNING, RUNNING] \<and>
   sorted (map state_rank (state fresh_peer #
     run True False
       [CallInit (Some 7) ''peer-a'' (Some 9) OK, CallStart ''q'' (OK, Some ''q'') OK,
        CallSubmitWrite (Some 3) OK, CallShutdown OK] fresh_peer))"
proof -
  have h: "init_only_before_running True False
     [CallInit (Some 7) ''peer-a'' (Some 9) OK, CallStart ''q'' (OK, Some ''q'') OK,
      CallSubmitWrite (Some 3) OK, CallShutdown OK] fresh_peer"
    by (simp add: Init_def Start_def SubmitWrite_def Shutdown_def Let_def ok_def)
  have r: "run True False
     [CallInit (Some 7) ''peer-a'' (Some 9) OK, CallStart ''q'' (OK, Some ''q'') OK,
      CallSubmitWrite (Some 3) OK, CallShutdown OK] fresh_peer =
     [CONFIGURING, RUNNING, RUNNING, RUNNING]"
    by (simp add: Init_def Start_def SubmitWrite_def Shutdown_def Let_def ok_def)
  have n: "state fresh_peer \<noteq> SHUTDOWN" by simp
  show ?thesis
    using h r run_monotone [OF h n] by simp
qed

text \<open>
  C6 as stated covers every sequence. \<open>Init\<close> assigns \<open>CONFIGURING\<close> whatever the state
  is: called again after a successful \<open>Start\<close> it takes the running peer back to
  \<open>CONFIGURING\<close>.
\<close>

theorem Init_after_Start_counterexample:
  "run True False
     [CallInit (Some 7) ''peer-a'' (Some 9) OK, CallStart ''q'' (OK, Some ''q'') OK,
      CallInit (Some 7) ''peer-a'' (Some 9) OK] fresh_peer =
     [CONFIGURING, RUNNING, CONFIGURING] \<and>
   state_rank CONFIGURING < state_rank RUNNING \<and>
   \<not> sorted (map state_rank (state fresh_peer #
     run True False
       [CallInit (Some 7) ''peer-a'' (Some 9) OK, CallStart ''q'' (OK, Some ''q'') OK,
        CallInit (Some 7) ''peer-a'' (Some 9) OK] fresh_peer))"
  by (simp add: Init_def Start_def Let_def ok_def)

end
